theory Spec2Isabelle
  imports Main "HOL-Library.Word"
begin

unbundle bit_operations_syntax

section \<open>Collaborators of the middleware\<close>

text \<open>
  The file \<^verbatim>\<open>web/middleware.go\<close> uses the package's header, parameter and cookie
  maps, its status constants and header names, the request's form parser, the cookie
  serialiser and the system's random source. Their declarations live in other files of
  the package; the ones below are the parts the middleware calls.
\<close>

text \<open>
  Modelled from the spec: the declaration of \<^verbatim>\<open>HeaderMap\<close>, of the parameter map and of
  the cookie lookup is missing. The spec describes each as a multimap from a name to one
  or more string values with get-first, add and set-replace operations. A Go map returns
  the empty slice for an absent key, and get-first returns the empty string then.
\<close>

type_synonym StringsMap = "string \<Rightarrow> string list"

definition Get :: "StringsMap \<Rightarrow> string \<Rightarrow> string" where
  "Get m key = (case m key of [] \<Rightarrow> '''' | v # _ \<Rightarrow> v)"

definition Add :: "StringsMap \<Rightarrow> string \<Rightarrow> string \<Rightarrow> StringsMap" where
  "Add m key v = m(key := m key @ [v])"

definition Set :: "StringsMap \<Rightarrow> string \<Rightarrow> string \<Rightarrow> StringsMap" where
  "Set m key v = m(key := [v])"

type_synonym HeaderMap = StringsMap
type_synonym ParamMap = StringsMap

text \<open>
  Modelled from the spec: the status constants and header names are declared elsewhere in
  the package. The spec names them bad-request, not-found, request-entity-too-large and
  expectation-failed, and the headers \<^verbatim>\<open>Expect\<close>, \<^verbatim>\<open>Set-Cookie\<close> and \<^verbatim>\<open>X-XSRFToken\<close>.
\<close>

definition StatusBadRequest :: int where "StatusBadRequest = 400"
definition StatusNotFound :: int where "StatusNotFound = 404"
definition StatusRequestEntityTooLarge :: int where "StatusRequestEntityTooLarge = 413"
definition StatusExpectationFailed :: int where "StatusExpectationFailed = 417"

definition HeaderExpect :: string where "HeaderExpect = ''Expect''"
definition HeaderSetCookie :: string where "HeaderSetCookie = ''Set-Cookie''"
definition HeaderXXSRFToken :: string where "HeaderXXSRFToken = ''X-XSRFToken''"

text \<open>Name of XSRF cookie and request parameter (lines 48 to 51).\<close>

definition XSRFCookieName :: string where "XSRFCookieName = ''xsrf''"
definition XSRFParamName :: string where "XSRFParamName = ''xsrf''"

section \<open>The response filter chain\<close>

text \<open>
  A responder is the framework's own responder or a \<^verbatim>\<open>filterResponder\<close> (lines 23 to
  26): the embedded previous responder and a filter. The framework's responder is opaque
  here; \<open>Respond\<close> returns the status and header it is finally called with.
\<close>

type_synonym Filter = "int \<Rightarrow> HeaderMap \<Rightarrow> int \<times> HeaderMap"

datatype Responder =
    baseResponder
  | filterResponder Responder Filter

fun Respond :: "Responder \<Rightarrow> int \<Rightarrow> HeaderMap \<Rightarrow> int \<times> HeaderMap" where
  "Respond baseResponder status header = (status, header)"
| "Respond (filterResponder rf filter_fn) status header =
     (case filter_fn status header of (status', header') \<Rightarrow> Respond rf status' header')"

record Request =
  Method :: string
  Header :: HeaderMap
  Cookie :: StringsMap
  Param :: ParamMap
  Responder :: Responder

text \<open>\<^verbatim>\<open>FilterRespond\<close>, lines 35 to 37.\<close>

definition FilterRespond :: "Request \<Rightarrow> Filter \<Rightarrow> Request" where
  "FilterRespond req filter_fn =
     req\<lparr>Responder := filterResponder (Responder req) filter_fn\<rparr>"

section \<open>The form handler\<close>

text \<open>
  \<^verbatim>\<open>hex.EncodeToString\<close> of the Go library: two lower-case digits per byte, the high
  nibble first.
\<close>

definition hextable :: string where
  "hextable = ''0123456789abcdef''"

definition EncodeToString :: "8 word list \<Rightarrow> string" where
  "EncodeToString src =
     concat (map (\<lambda>v. [hextable ! unat (drop_bit 4 v), hextable ! unat (v AND 0x0f)]) src)"

text \<open>
  The error of \<^verbatim>\<open>ParseForm\<close> is compared with the package's sentinel
  \<^verbatim>\<open>ErrRequestEntityTooLarge\<close>; any other error is carried by its text.
\<close>

datatype Error = ErrRequestEntityTooLarge | OtherError string

text \<open>
  The environment of one call: the request's form parser, which may change the request
  and may fail; the read of the random source, which is given the length of the buffer
  and returns the bytes it supplied and its error; and the serialisation of a new cookie,
  \<^verbatim>\<open>NewCookie(name, value).String()\<close>.
\<close>

record Env =
  ParseForm :: "int \<Rightarrow> Request \<Rightarrow> Error option \<times> Request"
  randRead :: "nat \<Rightarrow> 8 word list \<times> string option"
  cookieString :: "string \<Rightarrow> string \<Rightarrow> string"

text \<open>
  \<^verbatim>\<open>make([]byte, n)\<close> followed by a read into it: the buffer keeps its length, and the
  bytes the source did not supply stay zero.
\<close>

definition readInto :: "nat \<Rightarrow> 8 word list \<Rightarrow> 8 word list" where
  "readInto n bs = take n (bs @ replicate n 0)"

record formHandler =
  maxRequestBodyLen :: int
  checkXSRF :: bool

text \<open>
  What one call of \<^verbatim>\<open>ServeWeb\<close> ends in: the downstream handler is called with the
  request (line 198), the request's error path is called with a status and an error
  (lines 155 and 192), or the call panics (line 168).
\<close>

datatype Outcome =
    Delegated Request
  | Errored Request int string
  | Panicked string

definition tokenLen :: nat where "tokenLen = 8"

text \<open>The filter of lines 172 to 175.\<close>

definition setCookieFilter :: "string \<Rightarrow> Filter" where
  "setCookieFilter c status header = (status, Add header HeaderSetCookie c)"

text \<open>
  Lines 161 to 176: the expected token and the request, whose responder is replaced when
  a token is created. \<open>Inl\<close> is the panic.
\<close>

definition expectedTokenStep :: "Env \<Rightarrow> Request \<Rightarrow> string + string \<times> Request" where
  "expectedTokenStep env req =
     (let expectedToken = Get (Cookie req) XSRFCookieName in
      if length expectedToken \<noteq> tokenLen then
        (case randRead env (tokenLen div 2) of
           (bs, Some err) \<Rightarrow> Inl ''twister: rand read failed''
         | (bs, None) \<Rightarrow>
             (let p = readInto (tokenLen div 2) bs;
                  expectedToken = EncodeToString p;
                  c = cookieString env XSRFCookieName expectedToken
              in Inr (expectedToken, FilterRespond req (setCookieFilter c))))
      else Inr (expectedToken, req))"

text \<open>Lines 178 to 182: the actual token and the request.\<close>

definition actualTokenStep :: "string \<Rightarrow> Request \<Rightarrow> string \<times> Request" where
  "actualTokenStep expectedToken req =
     (let actualToken = Get (Param req) XSRFParamName in
      if actualToken = '''' then
        (Get (Header req) HeaderXXSRFToken,
         req\<lparr>Param := Set (Param req) XSRFParamName expectedToken\<rparr>)
      else (actualToken, req))"

text \<open>
  Lines 183 to 195: \<open>Inl\<close> is the early return through the error path, \<open>Inr\<close> the request
  that goes on to line 198.
\<close>

definition compareStep :: "string \<Rightarrow> string \<Rightarrow> Request \<Rightarrow> Outcome + Request" where
  "compareStep expectedToken actualToken req =
     (if expectedToken \<noteq> actualToken then
        (let req' = req\<lparr>Param := Set (Param req) XSRFParamName expectedToken\<rparr> in
         if Method req' = ''POST'' \<or> Method req' = ''PUT'' \<or> Method req' = ''DELETE'' then
           Inl (Errored req' StatusNotFound
                  (if actualToken = '''' then ''twister: missing xsrf token''
                   else ''twister: bad xsrf token''))
         else Inr req')
      else Inr req)"

text \<open>\<^verbatim>\<open>formHandler.ServeWeb\<close>, lines 146 to 199.\<close>

definition ServeWeb :: "formHandler \<Rightarrow> Env \<Rightarrow> Request \<Rightarrow> Outcome" where
  "ServeWeb h env req0 =
     (case ParseForm env (maxRequestBodyLen h) req0 of
        (Some err, req) \<Rightarrow>
          Errored req
            (if err = ErrRequestEntityTooLarge then
               (if Get (Header req) HeaderExpect \<noteq> '''' then StatusExpectationFailed
                else StatusRequestEntityTooLarge)
             else StatusBadRequest)
            ''twister: Error reading or parsing form.''
      | (None, req) \<Rightarrow>
          if checkXSRF h then
            (case expectedTokenStep env req of
               Inl msg \<Rightarrow> Panicked msg
             | Inr (expectedToken, req1) \<Rightarrow>
                 (case actualTokenStep expectedToken req1 of
                    (actualToken, req2) \<Rightarrow>
                      (case compareStep expectedToken actualToken req2 of
                         Inl out \<Rightarrow> out
                       | Inr req3 \<Rightarrow> Delegated req3)))
          else Delegated req)"

section \<open>Concrete inputs\<close>

text \<open>
  Environments whose form parser succeeds, reports a body that is too large or reports
  another error, and whose random source supplies four bytes or fails; handlers with the
  XSRF check on and off; and requests given by method, cookie, parameter and token header.
\<close>

definition emptyMap :: StringsMap where
  "emptyMap = (\<lambda>_. [])"

definition parseOk :: "int \<Rightarrow> Request \<Rightarrow> Error option \<times> Request" where
  "parseOk n req = (None, req)"

definition parseTooLarge :: "int \<Rightarrow> Request \<Rightarrow> Error option \<times> Request" where
  "parseTooLarge n req = (Some ErrRequestEntityTooLarge, req)"

definition parseBadForm :: "int \<Rightarrow> Request \<Rightarrow> Error option \<times> Request" where
  "parseBadForm n req = (Some (OtherError ''unexpected EOF''), req)"

definition plainCookie :: "string \<Rightarrow> string \<Rightarrow> string" where
  "plainCookie name v = name @ ''='' @ v"

definition deadbeef :: "8 word list" where
  "deadbeef = [0xde, 0xad, 0xbe, 0xef]"

definition envOk :: Env where
  "envOk = \<lparr>ParseForm = parseOk,
            randRead = (\<lambda>n. (deadbeef, None)),
            cookieString = plainCookie\<rparr>"

definition envNoRand :: Env where
  "envNoRand = \<lparr>ParseForm = parseOk,
                randRead = (\<lambda>n. ([], Some ''EOF'')),
                cookieString = plainCookie\<rparr>"

definition envTooLarge :: Env where
  "envTooLarge = \<lparr>ParseForm = parseTooLarge,
                  randRead = (\<lambda>n. (deadbeef, None)),
                  cookieString = plainCookie\<rparr>"

definition envBadForm :: Env where
  "envBadForm = \<lparr>ParseForm = parseBadForm,
                 randRead = (\<lambda>n. (deadbeef, None)),
                 cookieString = plainCookie\<rparr>"

definition guarded :: formHandler where
  "guarded = \<lparr>maxRequestBodyLen = 1024, checkXSRF = True\<rparr>"

definition unguarded :: formHandler where
  "unguarded = \<lparr>maxRequestBodyLen = 1024, checkXSRF = False\<rparr>"

definition mkRequest :: "string \<Rightarrow> string list \<Rightarrow> string list \<Rightarrow> string list \<Rightarrow> Request" where
  "mkRequest m cookie param hdr =
     \<lparr>Method = m,
      Header = emptyMap(HeaderXXSRFToken := hdr),
      Cookie = emptyMap(XSRFCookieName := cookie),
      Param = emptyMap(XSRFParamName := param),
      Responder = baseResponder\<rparr>"

definition setStatus :: "int \<Rightarrow> Filter" where
  "setStatus s status header = (s, header)"

text \<open>No cookie, no parameter, no token header, method GET.\<close>

definition reqFresh :: Request where
  "reqFresh = mkRequest ''GET'' [] [] []"

definition reqPostMissing :: Request where
  "reqPostMissing = mkRequest ''POST'' [''abcd1234''] [] []"

definition reqPostBad :: Request where
  "reqPostBad = mkRequest ''POST'' [''abcd1234''] [''wrongtok''] []"

definition reqPostGood :: Request where
  "reqPostGood = mkRequest ''POST'' [''abcd1234''] [''abcd1234''] []"

definition reqGetBad :: Request where
  "reqGetBad = mkRequest ''GET'' [''abcd1234''] [''wrongtok''] []"

text \<open>A cookie of three characters, and the same three characters submitted.\<close>

definition reqShort :: Request where
  "reqShort = mkRequest ''POST'' [''abc''] [''abc''] []"

text \<open>The parameter sent twice, as in \<^verbatim>\<open>?xsrf=abcd1234&xsrf=zzz\<close>.\<close>

definition reqTwo :: Request where
  "reqTwo = mkRequest ''GET'' [''abcd1234''] [''abcd1234'', ''zzz''] []"

text \<open>The token sent in the header, the parameter absent.\<close>

definition reqHeader :: Request where
  "reqHeader = mkRequest ''PUT'' [''abcd1234''] [] [''abcd1234'']"

text \<open>A cookie of eight characters that are not hexadecimal digits.\<close>

definition reqOdd :: Request where
  "reqOdd = mkRequest ''DELETE'' [''<script>''] [''<script>''] []"

definition reqExpect :: Request where
  "reqExpect =
     (mkRequest ''POST'' [] [] [])\<lparr>Header := emptyMap(HeaderExpect := [''100-continue''])\<rparr>"

section \<open>Vocabulary of the statements\<close>

text \<open>A filter applied to a pair, and a responder called with a pair.\<close>

definition applyFilter :: "Filter \<Rightarrow> int \<times> HeaderMap \<Rightarrow> int \<times> HeaderMap" where
  "applyFilter f p = f (fst p) (snd p)"

definition RespondPair :: "Responder \<Rightarrow> int \<times> HeaderMap \<Rightarrow> int \<times> HeaderMap" where
  "RespondPair r p = Respond r (fst p) (snd p)"

text \<open>The request that the downstream handler or the error path receives, if any.\<close>

definition outcomeRequest :: "Outcome \<Rightarrow> Request option" where
  "outcomeRequest out =
     (case out of
        Delegated r \<Rightarrow> Some r
      | Errored r status msg \<Rightarrow> Some r
      | Panicked msg \<Rightarrow> None)"

lemmas input_defs = reqFresh_def reqPostMissing_def reqPostBad_def reqPostGood_def reqGetBad_def
  reqShort_def reqTwo_def reqHeader_def reqOdd_def reqExpect_def mkRequest_def emptyMap_def
  envOk_def envNoRand_def envTooLarge_def envBadForm_def parseOk_def parseTooLarge_def
  parseBadForm_def plainCookie_def guarded_def unguarded_def setStatus_def deadbeef_def

lemmas const_defs = XSRFCookieName_def XSRFParamName_def HeaderXXSRFToken_def HeaderExpect_def
  HeaderSetCookie_def tokenLen_def StatusNotFound_def StatusBadRequest_def
  StatusRequestEntityTooLarge_def StatusExpectationFailed_def

lemmas step_defs = Get_def Set_def Add_def expectedTokenStep_def actualTokenStep_def
  compareStep_def ServeWeb_def FilterRespond_def EncodeToString_def readInto_def hextable_def
  setCookieFilter_def outcomeRequest_def applyFilter_def RespondPair_def Let_def

section \<open>Auxiliary facts\<close>







lemma Respond_FilterRespond:
  "Respond (Responder (FilterRespond req f)) status header = RespondPair (Responder req) (f status header)"
  by (simp add: FilterRespond_def RespondPair_def case_prod_beta)

lemma Respond_install_all:
  "RespondPair (Responder (foldl FilterRespond req fs)) p = RespondPair (Responder req) (foldr applyFilter fs p)"
proof (induction fs arbitrary: req p rule: rev_induct)
  case Nil
  show ?case by simp
next
  case (snoc f fs)
  show ?case using snoc.IH [of req "applyFilter f p"]
    by (simp add: applyFilter_def RespondPair_def FilterRespond_def case_prod_beta)
qed


lemma Get_Set: "Get (Set m key v) key = v"
  by (simp add: Get_def Set_def)

lemma Set_Set: "Set (Set m key v) key v' = Set m key v'"
  by (simp add: Set_def)

lemma fst_actualTokenStep:
  "fst (actualTokenStep e req) =
     (if Get (Param req) XSRFParamName = '''' then Get (Header req) HeaderXXSRFToken
      else Get (Param req) XSRFParamName)"
  by (simp add: actualTokenStep_def Let_def)

lemma snd_actualTokenStep:
  "snd (actualTokenStep e req) =
     (if Get (Param req) XSRFParamName = '''' then req\<lparr>Param := Set (Param req) XSRFParamName e\<rparr>
      else req)"
  by (simp add: actualTokenStep_def Let_def)

lemma ServeWeb_guard:
  assumes "ParseForm env (maxRequestBodyLen h) req0 = (None, req)"
    and "checkXSRF h"
    and "expectedTokenStep env req = Inr (e, req1)"
  shows "ServeWeb h env req0 =
     (case compareStep e (fst (actualTokenStep e req1)) (snd (actualTokenStep e req1)) of
        Inl out \<Rightarrow> out | Inr req3 \<Rightarrow> Delegated req3)"
  using assms by (simp add: ServeWeb_def case_prod_beta)


lemma expectedTokenStep_keep:
  assumes "length (Get (Cookie req) XSRFCookieName) = tokenLen"
  shows "expectedTokenStep env req = Inr (Get (Cookie req) XSRFCookieName, req)"
  using assms by (simp add: expectedTokenStep_def Let_def)

lemma ServeWeb_mismatch:
  assumes "ParseForm env (maxRequestBodyLen h) req0 = (None, req)"
    and "checkXSRF h"
    and "expectedTokenStep env req = Inr (e, req1)"
    and "fst (actualTokenStep e req1) \<noteq> e"
  shows "ServeWeb h env req0 =
     (if Method req1 = ''POST'' \<or> Method req1 = ''PUT'' \<or> Method req1 = ''DELETE'' then
        Errored (req1\<lparr>Param := Set (Param req1) XSRFParamName e\<rparr>) StatusNotFound
          (if fst (actualTokenStep e req1) = '''' then ''twister: missing xsrf token''
           else ''twister: bad xsrf token'')
      else Delegated (req1\<lparr>Param := Set (Param req1) XSRFParamName e\<rparr>))"
proof -
  have neq: "e \<noteq> fst (actualTokenStep e req1)" using assms(4) by simp
  show ?thesis
    unfolding ServeWeb_guard [OF assms(1-3)] compareStep_def
    using neq by (simp add: snd_actualTokenStep Set_Set Let_def)
qed

lemma ServeWeb_match:
  assumes "ParseForm env (maxRequestBodyLen h) req0 = (None, req)"
    and "checkXSRF h"
    and "expectedTokenStep env req = Inr (e, req1)"
    and "fst (actualTokenStep e req1) = e"
  shows "ServeWeb h env req0 = Delegated (snd (actualTokenStep e req1))"
  unfolding ServeWeb_guard [OF assms(1-3)] compareStep_def
  using assms(4) by simp

lemma expectedTokenStep_Method:
  "expectedTokenStep env req = Inr (e, req1) \<Longrightarrow>
     Method req1 = Method req \<and> Param req1 = Param req \<and> Header req1 = Header req \<and> Cookie req1 = Cookie req"
  by (auto simp: expectedTokenStep_def Let_def FilterRespond_def split: if_splits prod.splits option.splits)

lemma fst_actualTokenStep_parsed:
  assumes "expectedTokenStep env req = Inr (e, req1)"
  shows "fst (actualTokenStep e' req1) = fst (actualTokenStep e' req)"
  using expectedTokenStep_Method [OF assms] by (simp add: fst_actualTokenStep)



lemma ServeWeb_delegated_param:
  assumes "ParseForm env (maxRequestBodyLen h) req0 = (None, req)"
    and "checkXSRF h"
    and "expectedTokenStep env req = Inr (e, req1)"
    and "ServeWeb h env req0 = Delegated r"
  shows "Get (Param r) XSRFParamName = e"
proof (cases "fst (actualTokenStep e req1) = e")
  case True
  show ?thesis
    using assms(4) True unfolding ServeWeb_match [OF assms(1-3) True]
    by (auto simp: snd_actualTokenStep fst_actualTokenStep Get_Set split: if_splits)
next
  case False
  show ?thesis
    using assms(4) unfolding ServeWeb_mismatch [OF assms(1-3) False]
    by (auto simp: Get_Set split: if_splits)
qed

section \<open>Properties of the handler\<close>



text \<open>
  C2. Take a request whose form parsed, with XSRF checking enabled, for which the expected
  token \<open>e\<close> was obtained (read from the cookie or created), whose method is POST, PUT or
  DELETE and whose actual token (the \<^verbatim>\<open>xsrf\<close> parameter, or the \<^verbatim>\<open>X-XSRFToken\<close> header when
  the parameter is empty) differs from \<open>e\<close>. The downstream handler is not called: the
  error path is called with the not-found status, with the error "missing xsrf token" when
  the actual token is empty and "bad xsrf token" otherwise.
\<close>

theorem reject_mutating_mismatch:
  assumes "ParseForm env (maxRequestBodyLen h) req0 = (None, req)"
    and "checkXSRF h"
    and "expectedTokenStep env req = Inr (e, req1)"
    and "Method req = ''POST'' \<or> Method req = ''PUT'' \<or> Method req = ''DELETE''"
    and "fst (actualTokenStep e req) \<noteq> e"
  shows "ServeWeb h env req0 =
           Errored (req1\<lparr>Param := Set (Param req) XSRFParamName e\<rparr>) StatusNotFound
             (if fst (actualTokenStep e req) = '''' then ''twister: missing xsrf token''
              else ''twister: bad xsrf token'')
         \<and> (\<forall>r. ServeWeb h env req0 \<noteq> Delegated r)"
proof -
  note same = expectedTokenStep_Method [OF assms(3)]
  have act: "fst (actualTokenStep e req1) = fst (actualTokenStep e req)"
    by (rule fst_actualTokenStep_parsed [OF assms(3)])
  have neq: "fst (actualTokenStep e req1) \<noteq> e" using assms(5) act by simp
  have "ServeWeb h env req0 =
           Errored (req1\<lparr>Param := Set (Param req) XSRFParamName e\<rparr>) StatusNotFound
             (if fst (actualTokenStep e req) = '''' then ''twister: missing xsrf token''
              else ''twister: bad xsrf token'')"
    unfolding ServeWeb_mismatch [OF assms(1-3) neq] act using assms(4) same by simp
  then show ?thesis by simp
qed

theorem reject_mutating_mismatch_witness:
  "ServeWeb guarded envOk reqPostMissing =
     Errored (reqPostMissing\<lparr>Param := Set (Param reqPostMissing) XSRFParamName ''abcd1234''\<rparr>)
       StatusNotFound ''twister: missing xsrf token''
   \<and> ServeWeb guarded envOk reqPostBad =
     Errored (reqPostBad\<lparr>Param := Set (Param reqPostBad) XSRFParamName ''abcd1234''\<rparr>)
       StatusNotFound ''twister: bad xsrf token''"
proof -
  have p1: "ParseForm envOk (maxRequestBodyLen guarded) reqPostMissing = (None, reqPostMissing)"
    and p2: "ParseForm envOk (maxRequestBodyLen guarded) reqPostBad = (None, reqPostBad)"
    and c: "checkXSRF guarded"
    by (simp_all add: input_defs)
  have e1: "expectedTokenStep envOk reqPostMissing = Inr (''abcd1234'', reqPostMissing)"
    and e2: "expectedTokenStep envOk reqPostBad = Inr (''abcd1234'', reqPostBad)"
    by (simp_all add: input_defs const_defs step_defs)
  have m1: "Method reqPostMissing = ''POST'' \<or> Method reqPostMissing = ''PUT'' \<or> Method reqPostMissing = ''DELETE''"
    and m2: "Method reqPostBad = ''POST'' \<or> Method reqPostBad = ''PUT'' \<or> Method reqPostBad = ''DELETE''"
    by (simp_all add: input_defs)
  have a1: "fst (actualTokenStep ''abcd1234'' reqPostMissing) = ''''"
    and a2: "fst (actualTokenStep ''abcd1234'' reqPostBad) = ''wrongtok''"
    by (simp_all add: input_defs const_defs step_defs)
  have n1: "fst (actualTokenStep ''abcd1234'' reqPostMissing) \<noteq> ''abcd1234''"
    and n2: "fst (actualTokenStep ''abcd1234'' reqPostBad) \<noteq> ''abcd1234''"
    by (simp_all add: a1 a2)
  show ?thesis
    using reject_mutating_mismatch [OF p1 c e1 m1 n1] reject_mutating_mismatch [OF p2 c e2 m2 n2]
    by (simp add: a1 a2)
qed

text \<open>
  C3. Install filter \<open>F1\<close> and then filter \<open>F2\<close> on a request, and respond with status 200
  and header \<open>H\<close>. The filter installed last runs first: \<open>F2\<close> is applied to \<open>(200, H)\<close>,
  \<open>F1\<close> to its result, and the responder the request had before receives \<open>F1 (F2 (200, H))\<close>.
  The same holds for any list of filters installed in order: all of them run, the last
  one first.
\<close>

theorem filter_order:
  "Respond (Responder (FilterRespond (FilterRespond req F1) F2)) 200 H
     = RespondPair (Responder req) (applyFilter F1 (applyFilter F2 (200, H)))
   \<and> RespondPair (Responder (foldl FilterRespond req fs)) p
     = RespondPair (Responder req) (foldr applyFilter fs p)"
proof -
  have "Respond (Responder (FilterRespond (FilterRespond req F1) F2)) 200 H
     = RespondPair (Responder req) (applyFilter F1 (applyFilter F2 (200, H)))"
    using Respond_install_all [of req "[F1, F2]" "(200, H)"] by (simp add: RespondPair_def)
  then show ?thesis using Respond_install_all by simp
qed

text \<open>
  The pair written \<open>F2 (F1 (200, H))\<close> is another one: with \<open>F1\<close> setting the status to 1
  and \<open>F2\<close> setting it to 2, the framework's responder receives status 1, and
  \<open>F2 (F1 (200, H))\<close> has status 2.
\<close>

theorem filter_order_counterexample:
  "Respond (Responder (FilterRespond (FilterRespond reqFresh (setStatus 1)) (setStatus 2)))
       200 emptyMap = (1, emptyMap)
   \<and> applyFilter (setStatus 2) (applyFilter (setStatus 1) (200, emptyMap)) = (2, emptyMap)
   \<and> Respond (Responder (FilterRespond (FilterRespond reqFresh (setStatus 1)) (setStatus 2)))
       200 emptyMap
     \<noteq> applyFilter (setStatus 2) (applyFilter (setStatus 1) (200, emptyMap))"
  by (simp add: input_defs step_defs)

text \<open>
  C4. Take a request whose form parsed, with XSRF checking enabled, whose \<^verbatim>\<open>xsrf\<close> cookie
  has exactly 8 characters and equals the actual token. The expected token is the cookie,
  no token is created, the request is delegated, and its responder is the one it had: no
  filter is installed.
\<close>

theorem delegate_on_match:
  assumes "ParseForm env (maxRequestBodyLen h) req0 = (None, req)"
    and "checkXSRF h"
    and "length (Get (Cookie req) XSRFCookieName) = tokenLen"
    and "fst (actualTokenStep (Get (Cookie req) XSRFCookieName) req) = Get (Cookie req) XSRFCookieName"
  shows "ServeWeb h env req0 = Delegated (snd (actualTokenStep (Get (Cookie req) XSRFCookieName) req))
     \<and> Responder (snd (actualTokenStep (Get (Cookie req) XSRFCookieName) req)) = Responder req
     \<and> expectedTokenStep env req = Inr (Get (Cookie req) XSRFCookieName, req)"
proof -
  note step = expectedTokenStep_keep [OF assms(3), of env]
  show ?thesis
    using ServeWeb_match [OF assms(1,2) step assms(4)] step
    by (simp add: snd_actualTokenStep)
qed

theorem delegate_on_match_witness:
  "length (Get (Cookie reqPostGood) XSRFCookieName) = tokenLen
   \<and> Get (Cookie reqPostGood) XSRFCookieName = ''abcd1234''
   \<and> fst (actualTokenStep ''abcd1234'' reqPostGood) = ''abcd1234''
   \<and> ServeWeb guarded envOk reqPostGood = Delegated reqPostGood"
proof -
  have p: "ParseForm envOk (maxRequestBodyLen guarded) reqPostGood = (None, reqPostGood)"
    and c: "checkXSRF guarded"
    by (simp_all add: input_defs)
  have k: "Get (Cookie reqPostGood) XSRFCookieName = ''abcd1234''"
    by (simp add: input_defs const_defs Get_def)
  have l: "length (Get (Cookie reqPostGood) XSRFCookieName) = tokenLen"
    by (simp add: k tokenLen_def)
  have a: "actualTokenStep ''abcd1234'' reqPostGood = (''abcd1234'', reqPostGood)"
    by (simp add: input_defs const_defs step_defs)
  have m: "fst (actualTokenStep (Get (Cookie reqPostGood) XSRFCookieName) reqPostGood)
      = Get (Cookie reqPostGood) XSRFCookieName"
    by (simp add: k a)
  show ?thesis
    using delegate_on_match [OF p c l m] l by (simp add: k a)
qed

text \<open>
  A cookie that equals the submitted token but has another length is not enough: with
  cookie and parameter both \<^verbatim>\<open>abc\<close> and method POST, a token is created, the filter is
  installed and the request is rejected.
\<close>

theorem cookie_equals_submitted_counterexample:
  "Get (Cookie reqShort) XSRFCookieName = fst (actualTokenStep ''deadbeef'' reqShort)
   \<and> ServeWeb guarded envOk reqShort =
       Errored (reqShort\<lparr>Param := Set (Param reqShort) XSRFParamName ''deadbeef'',
                         Responder := filterResponder baseResponder (setCookieFilter ''xsrf=deadbeef'')\<rparr>)
         StatusNotFound ''twister: bad xsrf token''"
  by (simp add: input_defs const_defs step_defs)

text \<open>
  C5. Take a request whose form parsed, with XSRF checking enabled, for which the expected
  token \<open>e\<close> was obtained, whose method is none of POST, PUT and DELETE and whose actual
  token differs from \<open>e\<close>. The request is delegated, with its \<^verbatim>\<open>xsrf\<close> parameter set to \<open>e\<close>.
\<close>

theorem delegate_safe_mismatch:
  assumes "ParseForm env (maxRequestBodyLen h) req0 = (None, req)"
    and "checkXSRF h"
    and "expectedTokenStep env req = Inr (e, req1)"
    and "Method req \<noteq> ''POST''" and "Method req \<noteq> ''PUT''" and "Method req \<noteq> ''DELETE''"
    and "fst (actualTokenStep e req) \<noteq> e"
  shows "ServeWeb h env req0 = Delegated (req1\<lparr>Param := Set (Param req) XSRFParamName e\<rparr>)
     \<and> Get (Param (req1\<lparr>Param := Set (Param req) XSRFParamName e\<rparr>)) XSRFParamName = e"
proof -
  note same = expectedTokenStep_Method [OF assms(3)]
  have neq: "fst (actualTokenStep e req1) \<noteq> e"
    using assms(7) fst_actualTokenStep_parsed [OF assms(3), of e] by simp
  have "ServeWeb h env req0 = Delegated (req1\<lparr>Param := Set (Param req) XSRFParamName e\<rparr>)"
    unfolding ServeWeb_mismatch [OF assms(1-3) neq] using assms(4-6) same by simp
  then show ?thesis by (simp add: Get_Set)
qed

theorem delegate_safe_mismatch_witness:
  "fst (actualTokenStep ''abcd1234'' reqGetBad) = ''wrongtok''
   \<and> ServeWeb guarded envOk reqGetBad =
       Delegated (reqGetBad\<lparr>Param := Set (Param reqGetBad) XSRFParamName ''abcd1234''\<rparr>)
   \<and> Get (Param (reqGetBad\<lparr>Param := Set (Param reqGetBad) XSRFParamName ''abcd1234''\<rparr>))
        XSRFParamName = ''abcd1234''"
proof -
  have p: "ParseForm envOk (maxRequestBodyLen guarded) reqGetBad = (None, reqGetBad)"
    and c: "checkXSRF guarded"
    and m: "Method reqGetBad \<noteq> ''POST''" "Method reqGetBad \<noteq> ''PUT''"
      "Method reqGetBad \<noteq> ''DELETE''"
    by (simp_all add: input_defs)
  have e: "expectedTokenStep envOk reqGetBad = Inr (''abcd1234'', reqGetBad)"
    by (simp add: input_defs const_defs step_defs)
  have a: "fst (actualTokenStep ''abcd1234'' reqGetBad) = ''wrongtok''"
    by (simp add: input_defs const_defs step_defs)
  have n: "fst (actualTokenStep ''abcd1234'' reqGetBad) \<noteq> ''abcd1234''"
    by (simp add: a)
  show ?thesis
    using delegate_safe_mismatch [OF p c e m n] a by simp
qed



text \<open>
  C7. Take a request whose form parsed, with XSRF checking enabled, for which the expected
  token \<open>e\<close> was obtained and equals the actual token. The request is delegated and its
  \<^verbatim>\<open>xsrf\<close> parameter reads \<open>e\<close>. The parameter is set to \<open>e\<close> only when it was empty (the
  token came from the header); when the token came from the parameter, the parameters
  are left as they were.
\<close>

theorem param_on_match:
  assumes "ParseForm env (maxRequestBodyLen h) req0 = (None, req)"
    and "checkXSRF h"
    and "expectedTokenStep env req = Inr (e, req1)"
    and "fst (actualTokenStep e req) = e"
  shows "ServeWeb h env req0 =
           Delegated (if Get (Param req) XSRFParamName = ''''
                      then req1\<lparr>Param := Set (Param req) XSRFParamName e\<rparr> else req1)
     \<and> Get (Param (if Get (Param req) XSRFParamName = ''''
                    then req1\<lparr>Param := Set (Param req) XSRFParamName e\<rparr> else req1))
          XSRFParamName = e"
proof -
  note same = expectedTokenStep_Method [OF assms(3)]
  have eq: "fst (actualTokenStep e req1) = e"
    using assms(4) fst_actualTokenStep_parsed [OF assms(3), of e] by simp
  have run: "ServeWeb h env req0 =
           Delegated (if Get (Param req) XSRFParamName = ''''
                      then req1\<lparr>Param := Set (Param req) XSRFParamName e\<rparr> else req1)"
    unfolding ServeWeb_match [OF assms(1-3) eq] using same by (simp add: snd_actualTokenStep)
  show ?thesis
    using run ServeWeb_delegated_param [OF assms(1-3) run] by simp
qed

theorem param_on_match_witness:
  "fst (actualTokenStep ''abcd1234'' reqHeader) = ''abcd1234''
   \<and> Get (Param reqHeader) XSRFParamName = ''''
   \<and> ServeWeb guarded envOk reqHeader =
       Delegated (reqHeader\<lparr>Param := Set (Param reqHeader) XSRFParamName ''abcd1234''\<rparr>)"
proof -
  have p: "ParseForm envOk (maxRequestBodyLen guarded) reqHeader = (None, reqHeader)"
    and c: "checkXSRF guarded"
    by (simp_all add: input_defs)
  have e: "expectedTokenStep envOk reqHeader = Inr (''abcd1234'', reqHeader)"
    by (simp add: input_defs const_defs step_defs)
  have a: "fst (actualTokenStep ''abcd1234'' reqHeader) = ''abcd1234''"
    by (simp add: input_defs const_defs step_defs)
  have g: "Get (Param reqHeader) XSRFParamName = ''''"
    by (simp add: input_defs const_defs step_defs)
  show ?thesis
    using param_on_match [OF p c e a] a g by simp
qed

text \<open>
  When the matching token came from the parameter, the parameter is not set: sent twice,
  as \<^verbatim>\<open>abcd1234\<close> and \<^verbatim>\<open>zzz\<close>, it still has both values when the request is delegated,
  and setting it would have left one.
\<close>

theorem set_on_match_counterexample:
  "expectedTokenStep envOk reqTwo = Inr (''abcd1234'', reqTwo)
   \<and> fst (actualTokenStep ''abcd1234'' reqTwo) = ''abcd1234''
   \<and> ServeWeb guarded envOk reqTwo = Delegated reqTwo
   \<and> Param reqTwo XSRFParamName = [''abcd1234'', ''zzz'']
   \<and> Set (Param reqTwo) XSRFParamName ''abcd1234'' XSRFParamName = [''abcd1234'']
   \<and> ServeWeb guarded envOk reqTwo
       \<noteq> Delegated (reqTwo\<lparr>Param := Set (Param reqTwo) XSRFParamName ''abcd1234''\<rparr>)"
proof -
  have "Param reqTwo XSRFParamName \<noteq> Set (Param reqTwo) XSRFParamName ''abcd1234'' XSRFParamName"
    by (simp add: input_defs const_defs step_defs)
  then have "reqTwo \<noteq> reqTwo\<lparr>Param := Set (Param reqTwo) XSRFParamName ''abcd1234''\<rparr>"
    by (metis Request.select_convs(4) Request.surjective Request.update_convs(4))
  moreover have "ServeWeb guarded envOk reqTwo = Delegated reqTwo"
    by (simp add: input_defs const_defs step_defs)
  moreover have "expectedTokenStep envOk reqTwo = Inr (''abcd1234'', reqTwo)"
    "fst (actualTokenStep ''abcd1234'' reqTwo) = ''abcd1234''"
    "Param reqTwo XSRFParamName = [''abcd1234'', ''zzz'']"
    "Set (Param reqTwo) XSRFParamName ''abcd1234'' XSRFParamName = [''abcd1234'']"
    by (simp_all add: input_defs const_defs step_defs)
  ultimately show ?thesis by simp
qed

text \<open>
  C8. When the form does not parse, the request is not delegated: the error path is
  called with the request-entity-too-large status when the error is that the body is too
  large and the \<^verbatim>\<open>Expect\<close> header is empty, with the expectation-failed status when the
  body is too large and the \<^verbatim>\<open>Expect\<close> header is not empty, and with the bad-request
  status for any other error.
\<close>

theorem parse_failure_status:
  assumes "ParseForm env (maxRequestBodyLen h) req0 = (Some err, req)"
  shows "ServeWeb h env req0 =
           Errored req
             (if err \<noteq> ErrRequestEntityTooLarge then StatusBadRequest
              else if Get (Header req) HeaderExpect = '''' then StatusRequestEntityTooLarge
              else StatusExpectationFailed)
             ''twister: Error reading or parsing form.''
     \<and> (\<forall>r. ServeWeb h env req0 \<noteq> Delegated r)"
  using assms by (simp add: ServeWeb_def)

theorem parse_failure_status_witness:
  "ServeWeb guarded envTooLarge reqFresh =
     Errored reqFresh 413 ''twister: Error reading or parsing form.''
   \<and> ServeWeb guarded envTooLarge reqExpect =
     Errored reqExpect 417 ''twister: Error reading or parsing form.''
   \<and> ServeWeb guarded envBadForm reqExpect =
     Errored reqExpect 400 ''twister: Error reading or parsing form.''"
proof -
  have p1: "ParseForm envTooLarge (maxRequestBodyLen guarded) reqFresh
      = (Some ErrRequestEntityTooLarge, reqFresh)"
    and p2: "ParseForm envTooLarge (maxRequestBodyLen guarded) reqExpect
      = (Some ErrRequestEntityTooLarge, reqExpect)"
    and p3: "ParseForm envBadForm (maxRequestBodyLen guarded) reqExpect
      = (Some (OtherError ''unexpected EOF''), reqExpect)"
    by (simp_all add: input_defs)
  have g1: "Get (Header reqFresh) HeaderExpect = ''''"
    and g2: "Get (Header reqExpect) HeaderExpect = ''100-continue''"
    by (simp_all add: input_defs const_defs step_defs)
  show ?thesis
    using parse_failure_status [OF p1] parse_failure_status [OF p2] parse_failure_status [OF p3]
    by (simp add: g1 g2 StatusBadRequest_def StatusRequestEntityTooLarge_def
        StatusExpectationFailed_def)
qed





end
